theory Spec2Isabelle
  imports Main
begin

section \<open>The bot object of index.js\<close>

text \<open>
  The program is one class, \<open>MinecraftBedrockDiscordBot\<close>, whose fields are mutated by
  event handlers, timer callbacks and operator commands. The embedding is explicit state
  passing: every method takes the bot and returns the updated bot together with the list
  of calls it made to its collaborators (Discord, the Bedrock client, the timer queue),
  in program order. JavaScript numbers that hold counters, health points and millisecond
  timestamps are integers well below \<open>2^53\<close>, so they are \<open>int\<close>. Each method body runs
  as one step (the single event-loop path of the source); \<open>await\<close> points inside a body
  are not interleaving points of the model.
\<close>

type_synonym handle = nat

record coords =
  coord_x :: int
  coord_y :: int
  coord_z :: int

record safetyConfig =
  enabled :: bool
  proximityRadius :: int
  minHealth :: int
  alertCooldown :: int
  autoDisconnectOnThreat :: bool
  autoDisconnectHealth :: int

text \<open>
  \<open>minecraftBot\<close> is \<open>None\<close> for \<open>null\<close>. The three \<open>Set\<close> objects are lists holding the
  elements in insertion order, without duplicates. The fields that only serve the Discord
  rendering (\<open>controlMessage\<close>, \<open>lastAuthUser\<close>, \<open>authInteraction\<close>, \<open>authUrl\<close>,
  \<open>userCode\<close>, \<open>authMessageSent\<close>) and the web server are left out: no method below
  branches on them.
\<close>

record bot =
  minecraftBot :: "handle option"
  isConnected :: bool
  isConnecting :: bool
  shouldJoin :: bool
  currentWorld :: string
  currentCoords :: coords
  reconnectAttempts :: int
  maxReconnectAttempts :: int
  reconnectDelay :: int
  currentHealth :: int
  lastHealth :: int
  nearbyPlayers :: "string list"
  safetyConfig :: safetyConfig
  lastHealthAlert :: int
  lastProximityAlert :: int
  trustedPlayers :: "string list"
  blockedPlayers :: "string list"

definition origin :: coords where
  "origin = \<lparr>coord_x = 0, coord_y = 0, coord_z = 0\<rparr>"

text \<open>The constructor, with the trust and block lists read from the environment.\<close>

definition new_bot :: "string list \<Rightarrow> string list \<Rightarrow> bot" where
  "new_bot trusted blocked =
     \<lparr>minecraftBot = None, isConnected = False, isConnecting = False, shouldJoin = False,
      currentWorld = ''Unknown'', currentCoords = origin,
      reconnectAttempts = 0, maxReconnectAttempts = 10000, reconnectDelay = 15000,
      currentHealth = 20, lastHealth = 20, nearbyPlayers = [],
      safetyConfig = \<lparr>enabled = False, proximityRadius = 50, minHealth = 10,
        alertCooldown = 30000, autoDisconnectOnThreat = True, autoDisconnectHealth = 6\<rparr>,
      lastHealthAlert = 0, lastProximityAlert = 0,
      trustedPlayers = trusted, blockedPlayers = blocked\<rparr>"

text \<open>\<open>CONFIG.minecraft.username\<close> is the empty string in this repository.\<close>

definition config_username :: string where
  "config_username = []"

subsection \<open>Calls to the collaborators\<close>

text \<open>
  An alert is one call of \<open>sendSafetyAlert\<close>. The five call sites differ in title; the
  constructor stands for the title and carries the values interpolated into the
  description. The colour and the \<open>isUrgent\<close> argument are kept as passed. What
  \<open>sendSafetyAlert\<close> then does with the alert (a direct message, the channel fallback)
  belongs to the Discord side and is not part of the model.
\<close>

datatype alert =
    ThreatDetected "string list"
  | PlayerProximity nat "(string \<times> bool \<times> bool) list"
  | CriticalHealthAutoDisconnect int int
  | DamageTaken int int int
  | CriticalHealthAlert int

text \<open>The callbacks handed to \<open>setTimeout\<close> and \<open>setInterval\<close>, by the place that creates them.\<close>

datatype timer =
    ReconnectTimer
  | ThreatDisconnectTimer
  | HealthDisconnectTimer
  | TpaTimer
  | SafetyInterval

datatype effect =
    SafetyAlert alert string bool
  | SetTimeout timer int
  | SetInterval timer int
  | ClientDisconnect handle
  | CreateClient
  | QueueCommand handle string
  | UpdateEmbed
  | UpdateActivity
  | Reply

subsection \<open>Safety monitor\<close>

definition has :: "string list \<Rightarrow> string \<Rightarrow> bool" where
  "has xs p = (p \<in> set xs)"

text \<open>The annotation of one player in the generic alert: name, trusted mark, blocked mark.\<close>

definition annotate :: "bot \<Rightarrow> string \<Rightarrow> string \<times> bool \<times> bool" where
  "annotate b p = (p, has (trustedPlayers b) p, has (blockedPlayers b) p)"

definition threats :: "bot \<Rightarrow> string list" where
  "threats b = filter (\<lambda>p. \<not> has (trustedPlayers b) p) (nearbyPlayers b)"

definition checkPlayerProximity :: "int \<Rightarrow> bot \<Rightarrow> bot \<times> effect list" where
  "checkPlayerProximity now b =
     (if \<not> enabled (safetyConfig b) \<or> minecraftBot b = None \<or> \<not> isConnected b then (b, [])
      else if now - lastProximityAlert b < alertCooldown (safetyConfig b) then (b, [])
      else if nearbyPlayers b \<noteq> [] then
        (let b' = b\<lparr>lastProximityAlert := now\<rparr>;
             playerList = map (annotate b') (nearbyPlayers b')
         in if autoDisconnectOnThreat (safetyConfig b') \<and> threats b' \<noteq> [] then
              (b', [SafetyAlert (ThreatDetected (threats b')) ''#ff0000'' True,
                    SetTimeout ThreatDisconnectTimer 1000])
            else
              (b', [SafetyAlert (PlayerProximity (length (nearbyPlayers b')) playerList)
                      ''#ff9900'' True]))
      else (b, []))"

definition checkHealth :: "int \<Rightarrow> bot \<Rightarrow> bot \<times> effect list" where
  "checkHealth now b =
     (if \<not> enabled (safetyConfig b) \<or> minecraftBot b = None \<or> \<not> isConnected b then (b, [])
      else
        let damage = lastHealth b - currentHealth b in
        if currentHealth b < lastHealth b
           \<and> currentHealth b \<le> autoDisconnectHealth (safetyConfig b) then
          (b, [SafetyAlert (CriticalHealthAutoDisconnect damage (currentHealth b)) ''#8B0000'' True,
               SetTimeout HealthDisconnectTimer 500])
        else
          let damaged =
                (if currentHealth b < lastHealth b then
                   [SafetyAlert (DamageTaken damage (lastHealth b) (currentHealth b))
                      ''#ff0000'' True]
                 else []);
              b1 = b\<lparr>lastHealth := currentHealth b\<rparr>
          in if currentHealth b1 \<le> minHealth (safetyConfig b1)
                \<and> now - lastHealthAlert b1 > alertCooldown (safetyConfig b1) then
               (b1\<lparr>lastHealthAlert := now\<rparr>,
                damaged @ [SafetyAlert (CriticalHealthAlert (currentHealth b1)) ''#8B0000'' True])
             else (b1, damaged))"

subsection \<open>Chat\<close>

definition startsWith :: "string \<Rightarrow> string \<Rightarrow> bool" where
  "startsWith s p = (take (length p) s = p)"

definition sendChatMessage :: "string \<Rightarrow> bot \<Rightarrow> bot \<times> effect list" where
  "sendChatMessage message b =
     (case minecraftBot b of
        None \<Rightarrow> (b, [])
      | Some h \<Rightarrow>
          if \<not> isConnected b then (b, [])
          else (b, [QueueCommand h
                 (if startsWith message ''/'' then message else ''/say '' @ message)]))"

subsection \<open>Session lifecycle\<close>

definition attemptReconnect :: "bot \<Rightarrow> bot \<times> effect list" where
  "attemptReconnect b =
     (if \<not> shouldJoin b then (b, [])
      else if isConnecting b then (b, [])
      else if reconnectAttempts b \<ge> maxReconnectAttempts b then
        (b\<lparr>shouldJoin := False\<rparr>, [UpdateEmbed])
      else
        let b' = b\<lparr>reconnectAttempts := reconnectAttempts b + 1\<rparr>;
            delay = reconnectDelay b' * min (reconnectAttempts b') 5
        in (b', [UpdateEmbed, SetTimeout ReconnectTimer delay]))"

text \<open>
  \<open>setupMinecraftEvents\<close> registers the handlers of the section below on the new client
  and starts the periodic safety check.
\<close>

definition setupMinecraftEvents :: "bot \<Rightarrow> bot \<times> effect list" where
  "setupMinecraftEvents b = (b, [SetInterval SafetyInterval 10000])"

text \<open>
  \<open>createClient\<close> is the library's: it returns a new handle or throws. The argument
  \<open>created\<close> is its outcome, \<open>None\<close> when it throws. The teardown of a previous handle
  ignores errors, so it is the call alone.
\<close>

definition connectToMinecraft :: "handle option \<Rightarrow> bot \<Rightarrow> bot \<times> effect list" where
  "connectToMinecraft created b =
     (if isConnecting b then (b, [])
      else
        let teardown = (case minecraftBot b of None \<Rightarrow> [] | Some h \<Rightarrow> [ClientDisconnect h]);
            b1 = b\<lparr>isConnecting := True\<rparr>
        in case created of
             Some h' \<Rightarrow>
               (case setupMinecraftEvents (b1\<lparr>minecraftBot := Some h'\<rparr>) of
                  (b2, efs) \<Rightarrow> (b2, teardown @ [UpdateEmbed, CreateClient] @ efs))
           | None \<Rightarrow>
               (let b2 = b1\<lparr>isConnecting := False\<rparr>
                in if shouldJoin b2 then
                     (case attemptReconnect b2 of
                        (b3, efs) \<Rightarrow> (b3, teardown @ [UpdateEmbed, CreateClient] @ efs))
                   else (b2, teardown @ [UpdateEmbed, CreateClient, UpdateEmbed])))"

subsection \<open>Handlers of the client's events\<close>

text \<open>
  The handlers are the closures registered by \<open>setupMinecraftEvents\<close>; they act on the
  bot's fields, whichever client raised the event. Handlers that only log (\<open>text\<close>,
  \<open>player_chat\<close>), refresh the display (\<open>spawn\<close>) or store a position (\<open>move_player\<close>)
  are not needed below. Of the \<open>join\<close> handler, the edit of a pending Discord reply is
  left out with the field that holds it.
\<close>

definition on_join :: "bot \<Rightarrow> bot \<times> effect list" where
  "on_join b =
     (b\<lparr>isConnected := True, isConnecting := False, reconnectAttempts := 0\<rparr>,
      [UpdateActivity, UpdateEmbed, SetTimeout TpaTimer 5000])"

definition on_set_health :: "int \<Rightarrow> int \<Rightarrow> bot \<Rightarrow> bot \<times> effect list" where
  "on_set_health now health b =
     checkHealth now (b\<lparr>lastHealth := currentHealth b, currentHealth := health\<rparr>)"

definition on_disconnect :: "bot \<Rightarrow> bot \<times> effect list" where
  "on_disconnect b =
     (let b1 = b\<lparr>isConnected := False, isConnecting := False, minecraftBot := None,
                 currentWorld := ''Unknown'', currentCoords := origin\<rparr>
      in if shouldJoin b1 then
           (case attemptReconnect b1 of (b2, efs) \<Rightarrow> (b2, [UpdateActivity, UpdateEmbed] @ efs))
         else (b1, [UpdateActivity, UpdateEmbed]))"

definition on_error :: "bot \<Rightarrow> bot \<times> effect list" where
  "on_error b =
     (let b1 = b\<lparr>isConnected := False, isConnecting := False,
                 currentWorld := ''Unknown'', currentCoords := origin\<rparr>
      in if shouldJoin b1 then
           (case attemptReconnect b1 of (b2, efs) \<Rightarrow> (b2, [UpdateEmbed] @ efs))
         else (b1, [UpdateEmbed]))"

definition on_kick :: "bot \<Rightarrow> bot \<times> effect list" where
  "on_kick b =
     (let b1 = b\<lparr>isConnected := False, isConnecting := False, minecraftBot := None,
                 currentWorld := ''Unknown'', currentCoords := origin\<rparr>
      in if shouldJoin b1 then
           (case attemptReconnect b1 of (b2, efs) \<Rightarrow> (b2, [UpdateEmbed] @ efs))
         else (b1, [UpdateEmbed]))"

text \<open>
  \<open>Set.add\<close> keeps the first occurrence. A record of the player list without a
  \<open>username\<close> is the empty name here: both are skipped by the handler's test.
\<close>

definition set_add :: "string list \<Rightarrow> string \<Rightarrow> string list" where
  "set_add xs p = (if p \<in> set xs then xs else xs @ [p])"

definition on_player_list :: "int \<Rightarrow> string list \<Rightarrow> bot \<Rightarrow> bot \<times> effect list" where
  "on_player_list now usernames b =
     checkPlayerProximity now
       (b\<lparr>nearbyPlayers :=
            foldl set_add [] (filter (\<lambda>u. u \<noteq> [] \<and> u \<noteq> config_username) usernames)\<rparr>)"

subsection \<open>Timer callbacks\<close>

definition reconnect_timer :: "handle option \<Rightarrow> bot \<Rightarrow> bot \<times> effect list" where
  "reconnect_timer created b =
     (if shouldJoin b \<and> \<not> isConnected b \<and> \<not> isConnecting b then connectToMinecraft created b
      else (b, []))"

text \<open>The two automatic disconnects (after a threat, after critical health) have the same body.\<close>

definition auto_disconnect_timer :: "bot \<Rightarrow> bot \<times> effect list" where
  "auto_disconnect_timer b =
     (b\<lparr>shouldJoin := False\<rparr>,
      case minecraftBot b of None \<Rightarrow> [] | Some h \<Rightarrow> [ClientDisconnect h])"

definition tpa_timer :: "bot \<Rightarrow> bot \<times> effect list" where
  "tpa_timer b =
     (if minecraftBot b \<noteq> None \<and> isConnected b then sendChatMessage ''/tpa doggomc'' b
      else (b, []))"

definition safety_interval :: "int \<Rightarrow> bot \<Rightarrow> bot \<times> effect list" where
  "safety_interval now b =
     (if isConnected b \<and> enabled (safetyConfig b) then
        (case checkPlayerProximity now b of
           (b1, efs1) \<Rightarrow> (case checkHealth now b1 of (b2, efs2) \<Rightarrow> (b2, efs1 @ efs2)))
      else (b, []))"

fun fire :: "timer \<Rightarrow> int \<Rightarrow> handle option \<Rightarrow> bot \<Rightarrow> bot \<times> effect list" where
  "fire ReconnectTimer now created b = reconnect_timer created b"
| "fire ThreatDisconnectTimer now created b = auto_disconnect_timer b"
| "fire HealthDisconnectTimer now created b = auto_disconnect_timer b"
| "fire TpaTimer now created b = tpa_timer b"
| "fire SafetyInterval now created b = safety_interval now b"

subsection \<open>Operator commands (the slash-command handlers)\<close>

text \<open>
  \<open>Reply\<close> is the answer to the interaction. The buttons and the HTTP routes issue the
  same commands through bodies of their own and are not modelled.
\<close>

definition handleMessageCommand :: "string \<Rightarrow> bot \<Rightarrow> bot \<times> effect list" where
  "handleMessageCommand message b =
     (if \<not> isConnected b \<or> minecraftBot b = None then (b, [Reply])
      else (case sendChatMessage message b of (b1, efs) \<Rightarrow> (b1, efs @ [Reply])))"

definition handleConnectCommand :: "handle option \<Rightarrow> bot \<Rightarrow> bot \<times> effect list" where
  "handleConnectCommand created b =
     (if isConnected b then (b, [Reply])
      else
        (case connectToMinecraft created (b\<lparr>shouldJoin := True, reconnectAttempts := 0\<rparr>) of
           (b1, efs) \<Rightarrow> (b1, [Reply] @ efs)))"

definition handleDisconnectCommand :: "bot \<Rightarrow> bot \<times> effect list" where
  "handleDisconnectCommand b =
     (if \<not> isConnected b then (b, [Reply])
      else
        (b\<lparr>shouldJoin := False, reconnectAttempts := 0, minecraftBot := None\<rparr>,
         (case minecraftBot b of None \<Rightarrow> [] | Some h \<Rightarrow> [ClientDisconnect h])
           @ [UpdateEmbed, Reply]))"

definition handleSafetyCommand :: "bool \<Rightarrow> bot \<Rightarrow> bot \<times> effect list" where
  "handleSafetyCommand en b =
     (b\<lparr>safetyConfig := (safetyConfig b)\<lparr>enabled := en\<rparr>\<rparr>, [UpdateEmbed, Reply])"

subsection \<open>Runs of the event loop\<close>

text \<open>
  One turn of the event loop: an event together with what the environment answers during
  the turn, the clock (\<open>Date.now()\<close>) and the outcome of \<open>createClient\<close>.
\<close>

datatype event =
    Join
  | SetHealth int
  | PlayerList "string list"
  | Disconnect
  | ClientError
  | Kick
  | Fire timer
  | ConnectCommand
  | DisconnectCommand
  | SafetyCommand bool
  | MessageCommand string

record turn =
  clock :: int
  created :: "handle option"
  event :: event

fun handle_event :: "event \<Rightarrow> int \<Rightarrow> handle option \<Rightarrow> bot \<Rightarrow> bot \<times> effect list" where
  "handle_event Join now cr b = on_join b"
| "handle_event (SetHealth h) now cr b = on_set_health now h b"
| "handle_event (PlayerList us) now cr b = on_player_list now us b"
| "handle_event Disconnect now cr b = on_disconnect b"
| "handle_event ClientError now cr b = on_error b"
| "handle_event Kick now cr b = on_kick b"
| "handle_event (Fire t) now cr b = fire t now cr b"
| "handle_event ConnectCommand now cr b = handleConnectCommand cr b"
| "handle_event DisconnectCommand now cr b = handleDisconnectCommand b"
| "handle_event (SafetyCommand en) now cr b = handleSafetyCommand en b"
| "handle_event (MessageCommand m) now cr b = handleMessageCommand m b"

definition step :: "turn \<Rightarrow> bot \<Rightarrow> bot \<times> effect list" where
  "step t b = handle_event (event t) (clock t) (created t) b"

text \<open>A run returns the last bot and every call made, stamped with the clock of its turn.\<close>

fun run :: "turn list \<Rightarrow> bot \<Rightarrow> bot \<times> (int \<times> effect) list" where
  "run [] b = (b, [])"
| "run (t # ts) b =
     (case step t b of
        (b1, efs) \<Rightarrow>
          (case run ts b1 of (b2, tr) \<Rightarrow> (b2, map (Pair (clock t)) efs @ tr)))"

subsection \<open>Reading a list of calls\<close>

text \<open>The damage carried by each damage alert, in order.\<close>

fun damage_of :: "effect \<Rightarrow> int option" where
  "damage_of (SafetyAlert (DamageTaken d before after) colour urgent) = Some d"
| "damage_of ef = None"

definition damage_alerts :: "effect list \<Rightarrow> int list" where
  "damage_alerts efs = List.map_filter damage_of efs"

text \<open>The damage and the health carried by each critical-health disconnect alert.\<close>

fun critical_of :: "effect \<Rightarrow> (int \<times> int) option" where
  "critical_of (SafetyAlert (CriticalHealthAutoDisconnect d h) colour urgent) = Some (d, h)"
| "critical_of ef = None"

definition critical_alerts :: "effect list \<Rightarrow> (int \<times> int) list" where
  "critical_alerts efs = List.map_filter critical_of efs"





text \<open>The alert categories are the five titles; \<open>emissions\<close> lists the clock of every alert
  of the given categories in a run.\<close>

datatype category = Threat | Proximity | CriticalDisconnect | Damage | LowHealth

fun category_of :: "alert \<Rightarrow> category" where
  "category_of (ThreatDetected ps) = Threat"
| "category_of (PlayerProximity n ps) = Proximity"
| "category_of (CriticalHealthAutoDisconnect d h) = CriticalDisconnect"
| "category_of (DamageTaken d before after) = Damage"
| "category_of (CriticalHealthAlert h) = LowHealth"

fun in_categories :: "category list \<Rightarrow> effect \<Rightarrow> bool" where
  "in_categories cs (SafetyAlert a colour urgent) = (category_of a \<in> set cs)"
| "in_categories cs ef = False"

definition emissions :: "category list \<Rightarrow> (int \<times> effect) list \<Rightarrow> int list" where
  "emissions cs tr = map fst (filter (\<lambda>p. in_categories cs (snd p)) tr)"

text \<open>Every later time of the list is at least \<open>cd\<close> after every earlier one.\<close>

fun spaced :: "int \<Rightarrow> int list \<Rightarrow> bool" where
  "spaced cd [] = True"
| "spaced cd (t # ts) = (list_all (\<lambda>t'. cd \<le> t' - t) ts \<and> spaced cd ts)"

text \<open>
  What one turn may do to a throttle: the cooldown is kept, and either no alert selected
  by \<open>Q\<close> is sent and the stamp is kept, or exactly one is sent, the cooldown had elapsed
  since the stamp, and the stamp becomes the clock.
\<close>

definition throttle_step ::
  "(bot \<Rightarrow> int) \<Rightarrow> (effect \<Rightarrow> bool) \<Rightarrow> int \<Rightarrow> bot \<Rightarrow> bot \<times> effect list \<Rightarrow> bool" where
  "throttle_step stamp Q now b r =
     (alertCooldown (safetyConfig (fst r)) = alertCooldown (safetyConfig b)
      \<and> (if filter Q (snd r) = [] then stamp (fst r) = stamp b
         else length (filter Q (snd r)) = 1
              \<and> alertCooldown (safetyConfig b) \<le> now - stamp b \<and> stamp (fst r) = now))"

subsection \<open>Sample states and runs\<close>

text \<open>
  A connected bot with safety enabled, player A trusted, players A and B nearby; and the
  same bot with the automatic disconnect on threats switched off.
\<close>

definition guarded_bot :: bot where
  "guarded_bot =
     (new_bot [''A''] [])\<lparr>minecraftBot := Some 1, isConnected := True, shouldJoin := True,
        nearbyPlayers := [''A'', ''B''],
        safetyConfig := (safetyConfig (new_bot [''A''] []))\<lparr>enabled := True\<rparr>\<rparr>"

definition watching_bot :: bot where
  "watching_bot =
     guarded_bot\<lparr>safetyConfig := (safetyConfig guarded_bot)\<lparr>autoDisconnectOnThreat := False\<rparr>\<rparr>"

text \<open>The guarded bot with health 14 and with health 5, the previous health still 20.\<close>

definition hit_bot :: bot where
  "hit_bot = guarded_bot\<lparr>currentHealth := 14\<rparr>"

definition wounded_bot :: bot where
  "wounded_bot = guarded_bot\<lparr>currentHealth := 5\<rparr>"


text \<open>Bots that want to join: mid-backoff, out of attempts, and out of attempts while a
  connect is in flight; and a bot that is connecting.\<close>

definition retrying_bot :: bot where
  "retrying_bot = (new_bot [] [])\<lparr>shouldJoin := True, reconnectAttempts := 6\<rparr>"



definition connecting_bot :: bot where
  "connecting_bot = (new_bot [] [])\<lparr>minecraftBot := Some 1, isConnecting := True,
     shouldJoin := True\<rparr>"

definition at :: "int \<Rightarrow> event \<Rightarrow> turn" where
  "at c ev = \<lparr>clock = c, created = Some 2, event = ev\<rparr>"


definition bruising :: "turn list" where
  "bruising = [at 1000 (SetHealth 18), at 1001 (SetHealth 16)]"

definition patrol :: "turn list" where
  "patrol = [at 40000 (PlayerList [''A'', ''B'']), at 50000 (PlayerList [''A'', ''B'']),
             at 70000 (PlayerList [''B''])]"

section \<open>Properties\<close>

lemma guarded_bot_simps:
  "enabled (safetyConfig guarded_bot)" "isConnected guarded_bot"
  "minecraftBot guarded_bot = Some 1" "lastProximityAlert guarded_bot = 0"
  "alertCooldown (safetyConfig guarded_bot) = 30000"
  "nearbyPlayers guarded_bot = [''A'', ''B'']" "trustedPlayers guarded_bot = [''A'']"
  "blockedPlayers guarded_bot = []" "autoDisconnectOnThreat (safetyConfig guarded_bot)"
  "\<not> isConnecting guarded_bot" "shouldJoin guarded_bot"
  by (simp_all add: guarded_bot_def new_bot_def)

lemma retrying_bot_simps:
  "shouldJoin retrying_bot" "\<not> isConnecting retrying_bot" "\<not> isConnected retrying_bot"
  "reconnectAttempts retrying_bot = 6" "maxReconnectAttempts retrying_bot = 10000"
  "reconnectDelay retrying_bot = 15000" "minecraftBot retrying_bot = None"
  by (simp_all add: retrying_bot_def new_bot_def)


lemma connecting_bot_simps:
  "isConnecting connecting_bot" "minecraftBot connecting_bot = Some 1"
  by (simp_all add: connecting_bot_def new_bot_def)

subsection \<open>Proximity evaluation\<close>



subsection \<open>Chat\<close>

text \<open>
  C10. While connected with a live handle, \<open>sendChatMessage\<close> queues exactly one command:
  the text itself when its first character is a slash, and the text behind \<open>/say\<close> and a
  space otherwise. When not connected, or without a handle, nothing is queued. The bot is
  unchanged either way.
\<close>

theorem sendChatMessage_command:
  "(isConnected b \<and> minecraftBot b = Some h \<longrightarrow>
      sendChatMessage m b =
        (b, [QueueCommand h (if m \<noteq> [] \<and> hd m = CHR ''/'' then m else ''/say '' @ m)]))
   \<and> (\<not> isConnected b \<or> minecraftBot b = None \<longrightarrow> sendChatMessage m b = (b, []))"
  by (cases m) (auto simp add: sendChatMessage_def startsWith_def split: option.splits)

theorem sendChatMessage_command_witness:
  "sendChatMessage ''hello'' guarded_bot = (guarded_bot, [QueueCommand 1 ''/say hello''])
   \<and> sendChatMessage ''/home'' guarded_bot = (guarded_bot, [QueueCommand 1 ''/home''])
   \<and> sendChatMessage ''hello'' (new_bot [] []) = (new_bot [] [], [])"
  using sendChatMessage_command [of guarded_bot 1 "''hello''"]
    sendChatMessage_command [of guarded_bot 1 "''/home''"]
    sendChatMessage_command [of "new_bot [] []" 1 "''hello''"]
  by (simp add: guarded_bot_simps new_bot_def)

subsection \<open>Reconnection\<close>














subsection \<open>Health evaluation\<close>

text \<open>
  Health falls from 20 to 5 with the disconnect threshold at 6: the evaluation sends the
  critical-health disconnect alert and returns, so no damage alert is sent.
\<close>

theorem checkHealth_damage_counterexample:
  "enabled (safetyConfig wounded_bot) \<and> isConnected wounded_bot
   \<and> minecraftBot wounded_bot \<noteq> None \<and> currentHealth wounded_bot < lastHealth wounded_bot
   \<and> damage_alerts (snd (checkHealth 40000 wounded_bot))
       \<noteq> [lastHealth wounded_bot - currentHealth wounded_bot]"
  by (simp add: wounded_bot_def guarded_bot_def new_bot_def checkHealth_def damage_alerts_def
      List.map_filter_simps)

text \<open>
  C4, as the code has it. In a health evaluation while safety is enabled and the bot is connected
  with a live handle, if the health is below the previous health and above
  \<open>autoDisconnectHealth\<close>, exactly one damage alert is sent, carrying the previous health
  minus the health, whatever the clock and the cooldown stamp are (6 for 20 and 14). If
  the health is below the previous health and at most \<open>autoDisconnectHealth\<close>, no damage
  alert is sent: the one critical-health disconnect alert carries that difference.
\<close>

theorem checkHealth_damage:
  assumes "enabled (safetyConfig b)" and "isConnected b" and "minecraftBot b \<noteq> None"
    and "currentHealth b < lastHealth b"
  shows "(autoDisconnectHealth (safetyConfig b) < currentHealth b \<longrightarrow>
            damage_alerts (snd (checkHealth now b)) = [lastHealth b - currentHealth b])
       \<and> (currentHealth b \<le> autoDisconnectHealth (safetyConfig b) \<longrightarrow>
            damage_alerts (snd (checkHealth now b)) = []
            \<and> critical_alerts (snd (checkHealth now b))
                = [(lastHealth b - currentHealth b, currentHealth b)])"
  using assms
  by (auto simp add: checkHealth_def Let_def damage_alerts_def critical_alerts_def
      List.map_filter_simps)

theorem checkHealth_damage_witness:
  "damage_alerts (snd (checkHealth 40000 hit_bot)) = [6]
   \<and> damage_alerts (snd (checkHealth 40000 wounded_bot)) = []
   \<and> critical_alerts (snd (checkHealth 40000 wounded_bot)) = [(15, 5)]"
  using checkHealth_damage [of hit_bot 40000] checkHealth_damage [of wounded_bot 40000]
  by (simp add: hit_bot_def wounded_bot_def guarded_bot_def new_bot_def)




text \<open>
  C9. A \<open>set_health\<close> packet with health 5 reaches the guarded bot (health 20, threshold
  6). The evaluation takes the critical path and returns before the assignment to
  \<open>lastHealth\<close>: afterwards the health is 5 and the stored previous health is still 20.
\<close>

theorem on_set_health_critical_lastHealth:
  "on_set_health 40000 5 guarded_bot =
     (wounded_bot, [SafetyAlert (CriticalHealthAutoDisconnect 15 5) ''#8B0000'' True,
                    SetTimeout HealthDisconnectTimer 500])
   \<and> currentHealth wounded_bot = 5 \<and> lastHealth wounded_bot = 20"
  by (simp add: on_set_health_def checkHealth_def wounded_bot_def guarded_bot_def new_bot_def)

theorem on_set_health_critical_lastHealth_witness:
  "lastHealth (fst (on_set_health 40000 5 guarded_bot))
     \<noteq> currentHealth (fst (on_set_health 40000 5 guarded_bot))"
  using on_set_health_critical_lastHealth by simp

text \<open>On every other path the evaluation does store the health as the previous health.\<close>

lemma checkHealth_lastHealth:
  assumes "enabled (safetyConfig b)" and "isConnected b" and "minecraftBot b \<noteq> None"
    and "\<not> (currentHealth b < lastHealth b
            \<and> currentHealth b \<le> autoDisconnectHealth (safetyConfig b))"
  shows "lastHealth (fst (checkHealth now b)) = currentHealth b"
  using assms by (auto simp add: checkHealth_def Let_def)

subsection \<open>Alert throttle\<close>

text \<open>\<open>spaced\<close> says that any two entries are apart by the cooldown, the later one last.\<close>

lemma spaced_sorted_wrt: "spaced cd ts = sorted_wrt (\<lambda>t1 t2. cd \<le> t2 - t1) ts"
  by (induction ts) (simp_all add: list_all_iff)

lemma spaced_iff_nth:
  "spaced cd ts = (\<forall>i j. i < j \<longrightarrow> j < length ts \<longrightarrow> cd \<le> ts ! j - ts ! i)"
  by (simp add: spaced_sorted_wrt sorted_wrt_iff_nth_less)

lemma spaced_sub:
  assumes "\<And>ef. P ef \<Longrightarrow> Q ef"
    and "spaced cd (map fst (filter (\<lambda>p. Q (snd p)) tr))"
  shows "spaced cd (map fst (filter (\<lambda>p. P (snd p)) tr))"
  using assms(2)
proof (induction tr)
  case Nil
  then show ?case by simp
next
  case (Cons p tr)
  show ?case
  proof (cases "Q (snd p)")
    case True
    with Cons.prems have tl: "spaced cd (map fst (filter (\<lambda>p. Q (snd p)) tr))"
      and hd: "list_all (\<lambda>t'. cd \<le> t' - fst p) (map fst (filter (\<lambda>p. Q (snd p)) tr))"
      by simp_all
    from hd assms(1) have "list_all (\<lambda>t'. cd \<le> t' - fst p)
        (map fst (filter (\<lambda>p. P (snd p)) tr))"
      by (auto simp add: list_all_iff)
    with Cons.IH [OF tl] show ?thesis by simp
  next
    case False
    with assms(1) have "\<not> P (snd p)" by blast
    with False Cons show ?thesis by simp
  qed
qed

lemma stamped_times:
  "map fst (filter (\<lambda>p. Q (snd p)) (map (Pair c) efs)) = replicate (length (filter Q efs)) c"
  by (induction efs) simp_all

text \<open>Every alert of a run comes at least the cooldown after the stamp the run started with.\<close>

lemma run_after_stamp:
  assumes step_ok: "\<And>t b. throttle_step stamp Q (clock t) b (step t b)"
    and "0 \<le> alertCooldown (safetyConfig b)"
  shows "list_all (\<lambda>t'. alertCooldown (safetyConfig b) \<le> t' - stamp b)
           (map fst (filter (\<lambda>p. Q (snd p)) (snd (run ts b))))"
  using assms(2)
proof (induction ts arbitrary: b)
  case Nil
  then show ?case by simp
next
  case (Cons t ts)
  let ?b1 = "fst (step t b)"
  let ?cd = "alertCooldown (safetyConfig b)"
  have st: "throttle_step stamp Q (clock t) b (step t b)" by (rule step_ok)
  then have cd1: "alertCooldown (safetyConfig ?b1) = ?cd"
    by (simp add: throttle_step_def)
  have mono: "stamp b \<le> stamp ?b1"
    using st Cons.prems by (auto simp add: throttle_step_def split: if_splits)
  have head: "list_all (\<lambda>t'. ?cd \<le> t' - stamp b)
      (replicate (length (filter Q (snd (step t b)))) (clock t))"
    using st by (auto simp add: throttle_step_def list_all_iff split: if_splits)
  have "list_all (\<lambda>t'. ?cd \<le> t' - stamp ?b1)
      (map fst (filter (\<lambda>p. Q (snd p)) (snd (run ts ?b1))))"
    using Cons.IH [of ?b1] Cons.prems cd1 by simp
  then have tail: "list_all (\<lambda>t'. ?cd \<le> t' - stamp b)
      (map fst (filter (\<lambda>p. Q (snd p)) (snd (run ts ?b1))))"
    using mono by (auto simp add: list_all_iff)
  show ?case using head tail
    by (simp add: case_prod_beta stamped_times)
qed

lemma run_spaced:
  assumes step_ok: "\<And>t b. throttle_step stamp Q (clock t) b (step t b)"
    and "0 \<le> alertCooldown (safetyConfig b)"
  shows "spaced (alertCooldown (safetyConfig b))
           (map fst (filter (\<lambda>p. Q (snd p)) (snd (run ts b))))"
  using assms(2)
proof (induction ts arbitrary: b)
  case Nil
  then show ?case by simp
next
  case (Cons t ts)
  let ?b1 = "fst (step t b)"
  let ?cd = "alertCooldown (safetyConfig b)"
  let ?rest = "map fst (filter (\<lambda>p. Q (snd p)) (snd (run ts ?b1)))"
  have st: "throttle_step stamp Q (clock t) b (step t b)" by (rule step_ok)
  then have cd1: "alertCooldown (safetyConfig ?b1) = ?cd"
    by (simp add: throttle_step_def)
  have tail: "spaced ?cd ?rest"
    using Cons.IH [of ?b1] Cons.prems cd1 by simp
  have after: "list_all (\<lambda>t'. ?cd \<le> t' - stamp ?b1) ?rest"
    using run_after_stamp [OF step_ok, of ?b1 ts] Cons.prems cd1 by simp
  show ?case
  proof (cases "filter Q (snd (step t b)) = []")
    case True
    with tail show ?thesis by (simp add: case_prod_beta stamped_times)
  next
    case False
    with st have one: "length (filter Q (snd (step t b))) = 1" and "stamp ?b1 = clock t"
      by (simp_all add: throttle_step_def)
    with tail after show ?thesis
      by (simp add: case_prod_beta stamped_times)
  qed
qed

text \<open>Each handler keeps to the two throttles: the proximity stamp and the health stamp.\<close>

lemma throttle_step_prepare:
  assumes "throttle_step stamp Q now b1 r"
    and "alertCooldown (safetyConfig b1) = alertCooldown (safetyConfig b)"
    and "stamp b1 = stamp b"
  shows "throttle_step stamp Q now b r"
  using assms by (auto simp add: throttle_step_def split: if_splits)

lemma throttle_step_idle: "throttle_step stamp Q now b (b, [])"
  by (simp add: throttle_step_def)

lemma throttle_step_seq:
  assumes "throttle_step stamp Q now b r1"
    and "throttle_step stamp Q now (fst r1) r2"
    and "filter Q (snd r1) = [] \<or> filter Q (snd r2) = []"
    and "filter Q (snd r2) = [] \<or> stamp (fst r1) = stamp b"
  shows "throttle_step stamp Q now b (fst r2, snd r1 @ snd r2)"
  using assms by (auto simp add: throttle_step_def split: if_splits)

lemma checkPlayerProximity_throttle:
  "throttle_step lastProximityAlert (in_categories [Threat, Proximity]) now b
     (checkPlayerProximity now b)"
  "throttle_step lastHealthAlert (in_categories [LowHealth]) now b
     (checkPlayerProximity now b)"
  by (simp_all add: throttle_step_def checkPlayerProximity_def Let_def)

lemma checkHealth_throttle:
  "throttle_step lastProximityAlert (in_categories [Threat, Proximity]) now b
     (checkHealth now b)"
  "throttle_step lastHealthAlert (in_categories [LowHealth]) now b
     (checkHealth now b)"
  by (simp_all add: throttle_step_def checkHealth_def Let_def)

lemma checkHealth_frame:
  "lastProximityAlert (fst (checkHealth now b)) = lastProximityAlert b"
  "filter (in_categories [Threat, Proximity]) (snd (checkHealth now b)) = []"
  by (simp_all add: checkHealth_def Let_def)

lemma checkPlayerProximity_frame:
  "lastHealthAlert (fst (checkPlayerProximity now b)) = lastHealthAlert b"
  "filter (in_categories [LowHealth]) (snd (checkPlayerProximity now b)) = []"
  by (simp_all add: checkPlayerProximity_def Let_def)

lemma safety_interval_unfold:
  "safety_interval now b =
     (if isConnected b \<and> enabled (safetyConfig b) then
        (fst (checkHealth now (fst (checkPlayerProximity now b))),
         snd (checkPlayerProximity now b) @ snd (checkHealth now (fst (checkPlayerProximity now b))))
      else (b, []))"
  by (simp add: safety_interval_def case_prod_beta)

lemma safety_interval_throttle:
  "throttle_step lastProximityAlert (in_categories [Threat, Proximity]) now b
     (safety_interval now b)"
  "throttle_step lastHealthAlert (in_categories [LowHealth]) now b
     (safety_interval now b)"
proof -
  let ?r1 = "checkPlayerProximity now b"
  let ?r2 = "checkHealth now (fst ?r1)"
  have prox: "throttle_step lastProximityAlert (in_categories [Threat, Proximity]) now b
      (fst ?r2, snd ?r1 @ snd ?r2)"
    by (rule throttle_step_seq) (simp_all add: checkPlayerProximity_throttle
        checkHealth_throttle checkHealth_frame)
  show "throttle_step lastProximityAlert (in_categories [Threat, Proximity]) now b
      (safety_interval now b)"
    unfolding safety_interval_unfold using prox by (simp only: throttle_step_idle if_split) simp
  have low: "throttle_step lastHealthAlert (in_categories [LowHealth]) now b
      (fst ?r2, snd ?r1 @ snd ?r2)"
    by (rule throttle_step_seq) (simp_all add: checkPlayerProximity_throttle
        checkHealth_throttle checkPlayerProximity_frame)
  show "throttle_step lastHealthAlert (in_categories [LowHealth]) now b
      (safety_interval now b)"
    unfolding safety_interval_unfold using low by (simp only: throttle_step_idle if_split) simp
qed

lemma fire_throttle:
  "throttle_step lastProximityAlert (in_categories [Threat, Proximity]) now b
     (fire t now cr b)
   \<and> throttle_step lastHealthAlert (in_categories [LowHealth]) now b (fire t now cr b)"
proof (cases t)
  case SafetyInterval
  then show ?thesis by (simp add: safety_interval_throttle)
qed (simp_all add: throttle_step_def reconnect_timer_def auto_disconnect_timer_def tpa_timer_def
      connectToMinecraft_def attemptReconnect_def setupMinecraftEvents_def sendChatMessage_def
      Let_def case_prod_beta split: option.splits)

lemma handle_event_throttle:
  "throttle_step lastProximityAlert (in_categories [Threat, Proximity]) now b
     (handle_event ev now cr b)
   \<and> throttle_step lastHealthAlert (in_categories [LowHealth]) now b
     (handle_event ev now cr b)"
proof (cases ev)
  case (SetHealth h)
  then show ?thesis
    by (auto simp add: on_set_health_def
        intro!: throttle_step_prepare [OF checkHealth_throttle(1)]
        throttle_step_prepare [OF checkHealth_throttle(2)])
next
  case (PlayerList us)
  then show ?thesis
    by (auto simp add: on_player_list_def
        intro!: throttle_step_prepare [OF checkPlayerProximity_throttle(1)]
        throttle_step_prepare [OF checkPlayerProximity_throttle(2)])
next
  case (Fire t)
  then show ?thesis by (simp add: fire_throttle)
qed (simp_all add: throttle_step_def on_join_def on_disconnect_def on_error_def on_kick_def
      handleMessageCommand_def handleConnectCommand_def handleDisconnectCommand_def
      handleSafetyCommand_def connectToMinecraft_def attemptReconnect_def
      setupMinecraftEvents_def sendChatMessage_def Let_def case_prod_beta split: option.splits)

lemma in_categories_mono:
  assumes "set cs \<subseteq> set cs'" and "in_categories cs ef"
  shows "in_categories cs' ef"
  using assms by (cases ef) auto

text \<open>
  Two \<open>set_health\<close> packets one millisecond apart, each with less health than before:
  two damage alerts one millisecond apart, with a cooldown of 30000.
\<close>

theorem alert_throttle_counterexample:
  "emissions [Damage] (snd (run bruising guarded_bot)) = [1000, 1001]
   \<and> alertCooldown (safetyConfig guarded_bot) = 30000
   \<and> \<not> spaced (alertCooldown (safetyConfig guarded_bot))
         (emissions [Damage] (snd (run bruising guarded_bot)))"
  by (simp add: emissions_def bruising_def at_def step_def on_set_health_def checkHealth_def
      guarded_bot_def new_bot_def)

text \<open>
  C6, as the code has it. The two throttled groups of alerts are the proximity alerts (the threat
  alert and the generic alert, which share one stamp) and the low-health warning. With a
  cooldown that is not negative, in every run of client events, timer callbacks and
  operator commands from any state, any two alerts of one such group, and so of one such
  category, are at least \<open>alertCooldown\<close> apart. The damage alert and the critical-health
  disconnect alert are not throttled.
\<close>

theorem alert_throttle:
  assumes "0 \<le> alertCooldown (safetyConfig b)"
    and "set cs \<subseteq> {Threat, Proximity} \<or> set cs \<subseteq> {LowHealth}"
  shows "spaced (alertCooldown (safetyConfig b)) (emissions cs (snd (run ts b)))"
proof -
  from assms(2) show ?thesis
  proof
    assume cs: "set cs \<subseteq> {Threat, Proximity}"
    have "spaced (alertCooldown (safetyConfig b))
        (map fst (filter (\<lambda>p. in_categories [Threat, Proximity] (snd p)) (snd (run ts b))))"
      by (rule run_spaced [where stamp = lastProximityAlert])
        (simp_all add: step_def handle_event_throttle assms(1))
    then show ?thesis
      unfolding emissions_def
      by (rule spaced_sub [rotated]) (rule in_categories_mono [of cs], use cs in simp_all)
  next
    assume cs: "set cs \<subseteq> {LowHealth}"
    have "spaced (alertCooldown (safetyConfig b))
        (map fst (filter (\<lambda>p. in_categories [LowHealth] (snd p)) (snd (run ts b))))"
      by (rule run_spaced [where stamp = lastHealthAlert])
        (simp_all add: step_def handle_event_throttle assms(1))
    then show ?thesis
      unfolding emissions_def
      by (rule spaced_sub [rotated]) (rule in_categories_mono [of cs], use cs in simp_all)
  qed
qed

theorem alert_throttle_witness:
  "spaced (alertCooldown (safetyConfig watching_bot))
     (emissions [Threat, Proximity] (snd (run patrol watching_bot)))
   \<and> emissions [Threat, Proximity] (snd (run patrol watching_bot)) = [40000, 70000]
   \<and> spaced (alertCooldown (safetyConfig guarded_bot))
     (emissions [LowHealth] (snd (run bruising guarded_bot)))"
proof -
  have "emissions [Threat, Proximity] (snd (run patrol watching_bot)) = [40000, 70000]"
    by (simp add: emissions_def patrol_def at_def step_def on_player_list_def
        checkPlayerProximity_def watching_bot_def guarded_bot_def new_bot_def set_add_def
        config_username_def threats_def has_def annotate_def)
  then show ?thesis
    using alert_throttle [of watching_bot "[Threat, Proximity]" patrol]
      alert_throttle [of guarded_bot "[LowHealth]" bruising]
    by (simp add: watching_bot_def guarded_bot_simps)
qed

subsection \<open>Connecting\<close>

text \<open>
  On a connected bot that is not connecting, \<open>connectToMinecraft\<close> disconnects the handle
  it holds, creates a new client and marks the bot as connecting.
\<close>

theorem connectToMinecraft_connected_counterexample:
  "isConnected guarded_bot
   \<and> connectToMinecraft (Some 2) guarded_bot =
       (guarded_bot\<lparr>isConnecting := True, minecraftBot := Some 2\<rparr>,
        [ClientDisconnect 1, UpdateEmbed, CreateClient, SetInterval SafetyInterval 10000])"
  by (simp add: connectToMinecraft_def setupMinecraftEvents_def guarded_bot_simps Let_def)

text \<open>
  C7, as the code has it. \<open>connectToMinecraft\<close> called while the bot is connecting changes nothing and
  makes no call: no handle is created, none is torn down. The connect slash command on a
  connected bot only replies. \<open>connectToMinecraft\<close> itself, called on a bot that is not
  connecting and holds a handle (a connected bot among them), tears that handle down and
  replaces it by a new one.
\<close>

theorem connectToMinecraft_idempotent:
  "(isConnecting b \<longrightarrow> connectToMinecraft cr b = (b, []))
   \<and> (isConnected b \<longrightarrow> handleConnectCommand cr b = (b, [Reply]))
   \<and> (\<not> isConnecting b \<and> minecraftBot b = Some h \<longrightarrow>
        connectToMinecraft (Some h') b =
          (b\<lparr>isConnecting := True, minecraftBot := Some h'\<rparr>,
           [ClientDisconnect h, UpdateEmbed, CreateClient, SetInterval SafetyInterval 10000]))"
  by (simp add: connectToMinecraft_def handleConnectCommand_def setupMinecraftEvents_def Let_def)

theorem connectToMinecraft_idempotent_witness:
  "connectToMinecraft (Some 2) connecting_bot = (connecting_bot, [])
   \<and> handleConnectCommand (Some 2) guarded_bot = (guarded_bot, [Reply])
   \<and> connectToMinecraft (Some 3) (retrying_bot\<lparr>minecraftBot := Some 2\<rparr>) =
       (retrying_bot\<lparr>minecraftBot := Some 3, isConnecting := True\<rparr>,
        [ClientDisconnect 2, UpdateEmbed, CreateClient, SetInterval SafetyInterval 10000])"
  using connectToMinecraft_idempotent [of connecting_bot "Some 2"]
    connectToMinecraft_idempotent [of guarded_bot "Some 2"]
    connectToMinecraft_idempotent [of "retrying_bot\<lparr>minecraftBot := Some 2\<rparr>" "Some 3" 2 3]
  by (simp add: connecting_bot_simps guarded_bot_simps retrying_bot_simps)

subsection \<open>Disconnect, kick and error\<close>

lemma attemptReconnect_frame:
  "minecraftBot (fst (attemptReconnect b)) = minecraftBot b"
  "isConnected (fst (attemptReconnect b)) = isConnected b"
  "isConnecting (fst (attemptReconnect b)) = isConnecting b"
  "currentWorld (fst (attemptReconnect b)) = currentWorld b"
  "currentCoords (fst (attemptReconnect b)) = currentCoords b"
  by (simp_all add: attemptReconnect_def Let_def)

text \<open>What the three handlers do to the connection flags, the handle and the world.\<close>

lemma on_disconnect_resets:
  "\<not> isConnected (fst (on_disconnect b)) \<and> \<not> isConnecting (fst (on_disconnect b))
   \<and> minecraftBot (fst (on_disconnect b)) = None
   \<and> currentWorld (fst (on_disconnect b)) = ''Unknown''
   \<and> currentCoords (fst (on_disconnect b)) = origin"
  by (simp add: on_disconnect_def Let_def case_prod_beta attemptReconnect_frame)

lemma on_kick_resets:
  "\<not> isConnected (fst (on_kick b)) \<and> \<not> isConnecting (fst (on_kick b))
   \<and> minecraftBot (fst (on_kick b)) = None
   \<and> currentWorld (fst (on_kick b)) = ''Unknown''
   \<and> currentCoords (fst (on_kick b)) = origin"
  by (simp add: on_kick_def Let_def case_prod_beta attemptReconnect_frame)

lemma on_error_resets:
  "\<not> isConnected (fst (on_error b)) \<and> \<not> isConnecting (fst (on_error b))
   \<and> minecraftBot (fst (on_error b)) = minecraftBot b
   \<and> currentWorld (fst (on_error b)) = ''Unknown''
   \<and> currentCoords (fst (on_error b)) = origin"
  by (simp add: on_error_def Let_def case_prod_beta attemptReconnect_frame)

text \<open>
  C8. The client of the guarded bot raises \<open>error\<close>. The handler clears both connection
  flags and resets the world and the coordinates, as the handlers of \<open>disconnect\<close> and
  \<open>kick\<close> do, but it has no assignment to \<open>minecraftBot\<close>: the bot still holds handle 1.
\<close>

theorem on_error_keeps_handle:
  "minecraftBot (fst (on_error guarded_bot)) = Some 1
   \<and> isConnected (fst (on_error guarded_bot)) = False
   \<and> minecraftBot (fst (on_disconnect guarded_bot)) = None
   \<and> minecraftBot (fst (on_kick guarded_bot)) = None"
  by (simp add: on_error_def on_disconnect_def on_kick_def attemptReconnect_def Let_def
      guarded_bot_def new_bot_def)

theorem on_error_keeps_handle_witness:
  "minecraftBot (fst (on_error guarded_bot)) \<noteq> None"
  using on_error_keeps_handle by simp

end
